theory Spec2Isabelle
  imports Main
begin

section \<open>JavaScript values the clients observe\<close>

text \<open>
  Strings are \<^typ>\<open>string\<close>. A value that may be \<^verbatim>\<open>undefined\<close> (a field of the stored
  configuration, a constructor argument) is a \<^typ>\<open>string option\<close>, \<open>None\<close> standing for
  \<^verbatim>\<open>undefined\<close>. The result of an awaited promise is a \<open>settled\<close> value: fulfilled with a
  value, or rejected with an error, of which the code only ever reads \<^verbatim>\<open>error.message\<close>.
\<close>

datatype 'a settled = Fulfilled 'a | Rejected string

text \<open>
  What \<^verbatim>\<open>response.json()\<close> can produce. A number is kept as its ECMAScript
  \<^verbatim>\<open>ToString\<close> rendering: the code reads a number's truthiness and its rendering in a
  template literal only, and a number is falsy exactly when it renders as \<^verbatim>\<open>0\<close> (both
  zeros do) or as \<^verbatim>\<open>NaN\<close>. An object is its list of own properties.
\<close>

datatype jsval =
    JUndefined
  | JNull
  | JBool bool
  | JNum string
  | JStr string
  | JArr "jsval list"
  | JObj "(string \<times> jsval) list"

fun js_truthy :: "jsval \<Rightarrow> bool" where
  "js_truthy JUndefined = False"
| "js_truthy JNull = False"
| "js_truthy (JBool b) = b"
| "js_truthy (JNum s) = (s \<noteq> ''0'' \<and> s \<noteq> ''NaN'')"
| "js_truthy (JStr s) = (s \<noteq> [])"
| "js_truthy (JArr xs) = True"
| "js_truthy (JObj kvs) = True"

text \<open>\<^verbatim>\<open>!x\<close> for a value that is a string or \<^verbatim>\<open>undefined\<close>.\<close>

fun str_truthy :: "string option \<Rightarrow> bool" where
  "str_truthy None = False"
| "str_truthy (Some s) = (s \<noteq> [])"

text \<open>
  \<^verbatim>\<open>errorData.message\<close> on a truthy parsed value: an own property of an object, and
  \<^verbatim>\<open>undefined\<close> on an object without it and on every array, string, number and boolean
  (none of their prototypes has a property of that name).
\<close>

fun prop_message :: "jsval \<Rightarrow> jsval" where
  "prop_message (JObj kvs) = (case map_of kvs ''message'' of None \<Rightarrow> JUndefined | Some v \<Rightarrow> v)"
| "prop_message v = JUndefined"

definition join_strings :: "string \<Rightarrow> string list \<Rightarrow> string" where
  "join_strings sep xs = (case xs of [] \<Rightarrow> [] | y # ys \<Rightarrow> y @ concat (map (\<lambda>z. sep @ z) ys))"

text \<open>
  \<^verbatim>\<open>ToString\<close>, as a template literal applies it to a parsed JSON value. An array is the
  join of its elements with commas, \<^verbatim>\<open>null\<close> and \<^verbatim>\<open>undefined\<close> elements rendered empty.
  A plain object renders as \<^verbatim>\<open>[object Object]\<close> through \<^verbatim>\<open>Object.prototype.toString\<close>;
  an object with an own property \<^verbatim>\<open>toString\<close> shadows that method by a value that is not
  callable (JSON has no functions), \<^verbatim>\<open>valueOf\<close> then yields no primitive either, and the
  conversion throws a \<^verbatim>\<open>TypeError\<close>: the result is \<open>None\<close>.
\<close>

fun js_to_string :: "jsval \<Rightarrow> string option"
  and js_join :: "jsval list \<Rightarrow> string list option" where
  "js_to_string JUndefined = Some ''undefined''"
| "js_to_string JNull = Some ''null''"
| "js_to_string (JBool b) = Some (if b then ''true'' else ''false'')"
| "js_to_string (JNum s) = Some s"
| "js_to_string (JStr s) = Some s"
| "js_to_string (JArr xs) =
     (case js_join xs of None \<Rightarrow> None | Some ss \<Rightarrow> Some (join_strings '','' ss))"
| "js_to_string (JObj kvs) =
     (if ''toString'' \<in> fst ` set kvs then None else Some ''[object Object]'')"
| "js_join [] = Some []"
| "js_join (x # xs) =
     (case (if x = JNull \<or> x = JUndefined then Some [] else js_to_string x) of
        None \<Rightarrow> None
      | Some s \<Rightarrow> (case js_join xs of None \<Rightarrow> None | Some ss \<Rightarrow> Some (s # ss)))"

definition type_error_message :: string where
  "type_error_message = ''Cannot convert object to primitive value''"

subsection \<open>Numbers and strings\<close>

definition digit_char :: "nat \<Rightarrow> char" where
  "digit_char d = ''0123456789'' ! d"

text \<open>\<^verbatim>\<open>String(n)\<close> for a non-negative integer: its decimal digits.\<close>

fun show_nat :: "nat \<Rightarrow> string" where
  "show_nat n = (if n < 10 then [digit_char n] else show_nat (n div 10) @ [digit_char (n mod 10)])"

declare show_nat.simps [simp del]

definition show_int :: "int \<Rightarrow> string" where
  "show_int i = (if i < 0 then CHR ''-'' # show_nat (nat (- i)) else show_nat (nat i))"

text \<open>\<^verbatim>\<open>s.padStart(n, c)\<close> for a filler \<open>c\<close> of one character.\<close>

definition padStart :: "nat \<Rightarrow> char \<Rightarrow> string \<Rightarrow> string" where
  "padStart n c s = replicate (n - length s) c @ s"

text \<open>
  The characters \<^verbatim>\<open>String.prototype.trim\<close> strips, among those a \<^typ>\<open>char\<close> can hold:
  tab, line feed, vertical tab, form feed, carriage return, space and no-break space.
\<close>

definition js_whitespace :: "char \<Rightarrow> bool" where
  "js_whitespace c = (c \<in> set [CHR 0x09, CHR 0x0A, CHR 0x0B, CHR 0x0C, CHR 0x0D, CHR 0x20, CHR 0xA0])"

definition trim :: "string \<Rightarrow> string" where
  "trim s = rev (dropWhile js_whitespace (rev (dropWhile js_whitespace s)))"

section \<open>The clock\<close>

text \<open>
  A \<^verbatim>\<open>Date\<close>, as its local-time getters return it: \<open>getMonth\<close> counts from 0.
  The milliseconds are part of the date and are not read by the code.
\<close>

record js_date =
  getFullYear :: int
  getMonth :: nat
  getDate :: nat
  getHours :: nat
  getMinutes :: nat
  getSeconds :: nat
  getMilliseconds :: nat

definition valid_date :: "js_date \<Rightarrow> bool" where
  "valid_date d = (getMonth d < 12 \<and> 1 \<le> getDate d \<and> getDate d \<le> 31 \<and> getHours d < 24
     \<and> getMinutes d < 60 \<and> getSeconds d < 60 \<and> getMilliseconds d < 1000)"

text \<open>Two dates in the same wall-clock second: equal up to their milliseconds.\<close>

definition same_second :: "js_date \<Rightarrow> js_date \<Rightarrow> bool" where
  "same_second a b = (getFullYear a = getFullYear b \<and> getMonth a = getMonth b
     \<and> getDate a = getDate b \<and> getHours a = getHours b \<and> getMinutes a = getMinutes b
     \<and> getSeconds a = getSeconds b)"

text \<open>\<^verbatim>\<open>ObsidianWriter.generateFileName\<close>, on the date \<^verbatim>\<open>new Date()\<close> returned.\<close>

definition generateFileName :: "js_date \<Rightarrow> string" where
  "generateFileName now =
     (let year = getFullYear now;
          month = padStart 2 CHR ''0'' (show_nat (getMonth now + 1));
          day = padStart 2 CHR ''0'' (show_nat (getDate now));
          hours = padStart 2 CHR ''0'' (show_nat (getHours now));
          minutes = padStart 2 CHR ''0'' (show_nat (getMinutes now));
          seconds = padStart 2 CHR ''0'' (show_nat (getSeconds now))
      in show_int year @ ''-'' @ month @ ''-'' @ day @ ''_'' @ hours @ ''-'' @ minutes
           @ ''-'' @ seconds @ ''.md'')"

section \<open>The network and the trace of a run\<close>

datatype http_method = POST | HEAD

text \<open>
  The arguments of one \<^verbatim>\<open>fetch\<close> call. The body is the value handed to
  \<^verbatim>\<open>JSON.stringify\<close>; \<open>None\<close> is a request without a body.
\<close>

record request =
  req_method :: http_method
  req_url :: string
  req_headers :: "(string \<times> string) list"
  req_body :: "jsval option"

text \<open>
  A response, as the clients read it: the status line, and what \<^verbatim>\<open>response.json()\<close>
  and \<^verbatim>\<open>response.text()\<close> settle to (both reject when the body cannot be read, the first
  also when it is not JSON).
\<close>

record response =
  status :: nat
  statusText :: string
  json_result :: "jsval settled"
  text_result :: "string settled"

text \<open>\<^verbatim>\<open>response.ok\<close>: the status is in the range 200 to 299.\<close>

definition response_ok :: "response \<Rightarrow> bool" where
  "response_ok r = (200 \<le> status r \<and> status r \<le> 299)"

text \<open>
  The trace records, in program order, every entry into a client operation and every
  \<^verbatim>\<open>fetch\<close> call. It is the only instrumentation added to the code.
\<close>

datatype client_op = SendToFlomo string | SendToObsidian string | TestFlomo | TestObsidian

datatype event = Invoke client_op | FetchCall request

text \<open>
  The world outside the page: how the network settles each request, the current local
  time, the platform's \<^verbatim>\<open>Date.prototype.toLocaleString\<close>, and the trace so far.
  \<^verbatim>\<open>console.log\<close> and \<^verbatim>\<open>console.error\<close> have no effect on any value and are left out.
\<close>

record world =
  net :: "request \<Rightarrow> response settled"
  clock :: js_date
  toLocaleString :: "js_date \<Rightarrow> string"
  trace :: "event list"

type_synonym 'a async = "world \<Rightarrow> 'a settled \<times> world"

definition resolve :: "'a \<Rightarrow> 'a async" where
  "resolve x w = (Fulfilled x, w)"

definition throw :: "string \<Rightarrow> 'a async" where
  "throw e w = (Rejected e, w)"

text \<open>\<^verbatim>\<open>await m\<close> followed by the rest of the function: a rejection propagates.\<close>

definition await :: "'a async \<Rightarrow> ('a \<Rightarrow> 'b async) \<Rightarrow> 'b async" where
  "await m k w = (case m w of (Fulfilled x, w') \<Rightarrow> k x w' | (Rejected e, w') \<Rightarrow> (Rejected e, w'))"

text \<open>\<^verbatim>\<open>try { m } catch (error) { h }\<close>, the handler given \<^verbatim>\<open>error.message\<close>.\<close>

definition try_catch :: "'a async \<Rightarrow> (string \<Rightarrow> 'a async) \<Rightarrow> 'a async" where
  "try_catch m h w = (case m w of (Rejected e, w') \<Rightarrow> h e w' | (Fulfilled x, w') \<Rightarrow> (Fulfilled x, w'))"

definition record_event :: "event \<Rightarrow> world \<Rightarrow> world" where
  "record_event ev w = w\<lparr>trace := trace w @ [ev]\<rparr>"

definition fetch :: "request \<Rightarrow> response async" where
  "fetch r w = (net w r, record_event (FetchCall r) w)"

text \<open>A string or \<^verbatim>\<open>undefined\<close> inside a template literal or as a URL.\<close>

fun str_of :: "string option \<Rightarrow> string" where
  "str_of None = ''undefined''"
| "str_of (Some s) = s"

section \<open>The clients (flomoAPI.js)\<close>

record outcome =
  success :: bool
  message :: string

record FlomoAPI =
  api_url :: "string option"

text \<open>\<^verbatim>\<open>response.json().catch(() => null)\<close>\<close>

definition json_or_null :: "response \<Rightarrow> jsval" where
  "json_or_null r = (case json_result r of Rejected e \<Rightarrow> JNull | Fulfilled v \<Rightarrow> v)"

text \<open>\<^verbatim>\<open>FlomoAPI.sendToFlomo\<close>\<close>

definition sendToFlomo :: "FlomoAPI \<Rightarrow> string \<Rightarrow> outcome async" where
  "sendToFlomo this content w0 =
     (let w = record_event (Invoke (SendToFlomo content)) w0 in
      if \<not> str_truthy (api_url this)
      then resolve \<lparr>success = False, message = ''Flomo API URL is not set.''\<rparr> w
      else try_catch
        (await (fetch \<lparr>req_method = POST, req_url = str_of (api_url this),
                  req_headers = [(''Content-Type'', ''application/json'')],
                  req_body = Some (JObj [(''content'', JStr content)])\<rparr>)
           (\<lambda>response.
              if response_ok response
              then resolve \<lparr>success = True, message = ''Note sent to Flomo successfully.''\<rparr>
              else
                (let errorData = json_or_null response;
                     msg = (if js_truthy errorData then prop_message errorData
                            else JStr (''HTTP Error: '' @ show_nat (status response)))
                 in case js_to_string msg of
                      None \<Rightarrow> throw type_error_message
                    | Some m \<Rightarrow>
                        resolve \<lparr>success = False, message = ''Failed to send to Flomo. '' @ m\<rparr>)))
        (\<lambda>error. resolve \<lparr>success = False, message = ''Network or other error: '' @ error\<rparr>)
        w)"

text \<open>\<^verbatim>\<open>FlomoAPI.testConnection\<close>\<close>

definition flomo_testConnection :: "FlomoAPI \<Rightarrow> outcome async" where
  "flomo_testConnection this w0 =
     (let w = record_event (Invoke TestFlomo) w0;
          testContent = ''#flomo-obsidian-extension'' @ [CHR 0x0A]
            @ ''This is a test message from the Flomo & Obsidian Quick Memo extension.''
            @ [CHR 0x0A] @ toLocaleString w (clock w)
      in sendToFlomo this testContent w)"

record ObsidianWriter =
  vaultName :: string
  apiToken :: "string option"
  port :: string
  apiUrl :: string

text \<open>The constructor; the third argument is \<open>None\<close> when the caller leaves the port out.\<close>

definition new_ObsidianWriter :: "string option \<Rightarrow> string option \<Rightarrow> string option \<Rightarrow> ObsidianWriter" where
  "new_ObsidianWriter vaultName_arg apiToken_arg port_arg =
     (let p = (case port_arg of None \<Rightarrow> ''27123'' | Some q \<Rightarrow> q) in
      \<lparr>vaultName = (if str_truthy vaultName_arg then trim (str_of vaultName_arg) else []),
       apiToken = apiToken_arg,
       port = p,
       apiUrl = ''http://127.0.0.1:'' @ p\<rparr>)"

text \<open>\<^verbatim>\<open>ObsidianWriter.sendToObsidian\<close>\<close>

definition sendToObsidian :: "ObsidianWriter \<Rightarrow> string \<Rightarrow> outcome async" where
  "sendToObsidian this content w0 =
     (let w = record_event (Invoke (SendToObsidian content)) w0 in
      if vaultName this = [] \<or> \<not> str_truthy (apiToken this)
      then resolve \<lparr>success = False, message = ''Obsidian Vault Name or API Token is not set.''\<rparr> w
      else
        (let fileName = generateFileName (clock w);
             url = apiUrl this @ ''/notes''
         in try_catch
           (await (fetch \<lparr>req_method = POST, req_url = url,
                     req_headers = [(''Content-Type'', ''application/json''),
                                    (''Authorization'', ''Bearer '' @ str_of (apiToken this))],
                     req_body = Some (JObj [(''path'', JStr (vaultName this @ ''/'' @ fileName)),
                                            (''content'', JStr content)])\<rparr>)
              (\<lambda>response.
                 if response_ok response
                 then resolve \<lparr>success = True,
                   message = ''Note '' @ [CHR 0x27] @ fileName @ [CHR 0x27]
                     @ '' created in Obsidian successfully.''\<rparr>
                 else await (\<lambda>w'. (text_result response, w'))
                   (\<lambda>errorText. resolve \<lparr>success = False,
                      message = ''Failed to create note in Obsidian. HTTP ''
                        @ show_nat (status response) @ '': '' @ errorText\<rparr>)))
           (\<lambda>error. resolve \<lparr>success = False, message = ''Network or other error: '' @ error\<rparr>)
           w))"

definition msg_unauthorized :: string where
  "msg_unauthorized = ''Connection failed: Unauthorized. Check your API Token.''"

definition msg_not_found :: string where
  "msg_not_found = ''Connection failed: Not Found. Check if the '' @ [CHR 0x27]
     @ ''Local REST API'' @ [CHR 0x27] @ '' plugin is enabled in Obsidian.''"

definition msg_generic :: "nat \<Rightarrow> string \<Rightarrow> string" where
  "msg_generic st txt = ''Obsidian API connection failed. HTTP '' @ show_nat st @ '': '' @ txt"

text \<open>
  \<^verbatim>\<open>ObsidianWriter.testConnection\<close>; the three failure messages of its \<^verbatim>\<open>else\<close> branch are
  named above.
\<close>

definition obsidian_testConnection :: "ObsidianWriter \<Rightarrow> outcome async" where
  "obsidian_testConnection this w0 =
     (let w = record_event (Invoke TestObsidian) w0 in
      if vaultName this = [] \<or> \<not> str_truthy (apiToken this)
      then resolve \<lparr>success = False, message = ''Obsidian Vault Name or API Token is not set.''\<rparr> w
      else
        (let url = apiUrl this @ ''/vault/'' in
         try_catch
           (await (fetch \<lparr>req_method = HEAD, req_url = url,
                     req_headers = [(''Authorization'', ''Bearer '' @ str_of (apiToken this))],
                     req_body = None\<rparr>)
              (\<lambda>response.
                 if response_ok response
                 then resolve \<lparr>success = True, message = ''Obsidian API connection successful.''\<rparr>
                 else
                   (let message0 = msg_generic (status response) (statusText response);
                        message1 = (if status response = 401 then msg_unauthorized
                                    else if status response = 404 then msg_not_found
                                    else message0)
                    in resolve \<lparr>success = False, message = message1\<rparr>)))
           (\<lambda>error. resolve \<lparr>success = False,
              message = ''Network error. Is Obsidian running and the API plugin enabled on port ''
                @ port this @ ''?''\<rparr>)
           w))"

section \<open>The popup (popup.js)\<close>

record config =
  cfg_flomoUrl :: "string option"
  cfg_obsidianVault :: "string option"
  cfg_obsidianToken :: "string option"
  cfg_sendToFlomo :: "bool option"
  cfg_sendToObsidian :: "bool option"

text \<open>A child of the result box: its class name and its inner HTML.\<close>

record result_block =
  block_class :: string
  block_html :: string

text \<open>
  The page: the properties of the DOM elements that the script reads or writes, and the
  script's \<^verbatim>\<open>state\<close> object, whose two clients are \<^verbatim>\<open>null\<close> (\<open>None\<close>) until
  \<^verbatim>\<open>reinitializeApis\<close> has run.
\<close>

record page =
  memoContent_value :: string
  sendToFlomo_checked :: bool
  sendToObsidian_checked :: bool
  submitButton_disabled :: bool
  submitButton_text :: string
  statusMessage_text :: string
  statusMessage_class :: string
  resultBox_hidden :: bool
  resultBox_children :: "result_block list"
  flomoUrlInput_value :: string
  obsidianVaultInput_value :: string
  obsidianTokenInput_value :: string
  state_config :: config
  state_flomoAPI :: "FlomoAPI option"
  state_obsidianAPI :: "ObsidianWriter option"

definition reinitializeApis :: "page \<Rightarrow> page" where
  "reinitializeApis p =
     p\<lparr>state_flomoAPI := Some \<lparr>api_url = cfg_flomoUrl (state_config p)\<rparr>,
       state_obsidianAPI := Some (new_ObsidianWriter (cfg_obsidianVault (state_config p))
                                   (cfg_obsidianToken (state_config p)) None)\<rparr>"

definition updateStatus :: "string \<Rightarrow> string \<Rightarrow> page \<Rightarrow> page" where
  "updateStatus msg type p =
     p\<lparr>statusMessage_text := msg,
       statusMessage_class := ''status-message '' @ type,
       resultBox_hidden := True\<rparr>"

definition showResult :: "string list \<Rightarrow> string list \<Rightarrow> page \<Rightarrow> page" where
  "showResult successMessages errorMessages p =
     (let successDiv = (if length successMessages > 0
            then [\<lparr>block_class = ''result-block success'',
                   block_html = ''<strong>Success:</strong><br>''
                     @ join_strings ''<br>'' successMessages\<rparr>]
            else []);
          errorDiv = (if length errorMessages > 0
            then [\<lparr>block_class = ''result-block error'',
                   block_html = ''<strong>Error:</strong><br>''
                     @ join_strings ''<br>'' errorMessages\<rparr>]
            else [])
      in p\<lparr>statusMessage_text := [],
           resultBox_hidden := False,
           resultBox_children := successDiv @ errorDiv\<rparr>)"

definition updateSubmitButtonState :: "page \<Rightarrow> page" where
  "updateSubmitButtonState p =
     (let toFlomo = sendToFlomo_checked p;
          toObsidian = sendToObsidian_checked p;
          text = (if toFlomo \<and> toObsidian then ''Submit to Both''
                  else if toFlomo then ''Submit to Flomo''
                  else if toObsidian then ''Submit to Obsidian''
                  else ''Submit'')
      in p\<lparr>submitButton_text := text, submitButton_disabled := (\<not> toFlomo \<and> \<not> toObsidian)\<rparr>)"

text \<open>
  \<^verbatim>\<open>Promise.all\<close>: the values of all the promises, in order, once every one is fulfilled;
  rejected as soon as one of them is.
\<close>

fun promise_all :: "'a settled list \<Rightarrow> 'a list settled" where
  "promise_all [] = Fulfilled []"
| "promise_all (Rejected e # ps) = Rejected e"
| "promise_all (Fulfilled x # ps) =
     (case promise_all ps of Rejected e \<Rightarrow> Rejected e | Fulfilled xs \<Rightarrow> Fulfilled (x # xs))"

text \<open>The message of the \<^verbatim>\<open>TypeError\<close> thrown when the property \<open>name\<close> is read on \<^verbatim>\<open>null\<close>.\<close>

definition null_error_message :: "string \<Rightarrow> string" where
  "null_error_message name =
     ''Cannot read properties of null (reading '' @ [CHR 0x27] @ name @ [CHR 0x27] @ '')''"

text \<open>
  A method call \<^verbatim>\<open>obj.name(...)\<close> that returns a promise: on \<^verbatim>\<open>null\<close> it throws at the
  call; otherwise the operation \<open>m\<close> runs and its promise, settled, is the value of the call.
\<close>

definition call_method :: "'c option \<Rightarrow> string \<Rightarrow> ('c \<Rightarrow> 'a async) \<Rightarrow> ('a settled) async" where
  "call_method obj name m w =
     (case obj of
        None \<Rightarrow> (Rejected (null_error_message name), w)
      | Some c \<Rightarrow> (case m c w of (r, w') \<Rightarrow> (Fulfilled r, w')))"

text \<open>
  Lines 158 to 166 of \<^verbatim>\<open>submitNote\<close>: the list \<^verbatim>\<open>submissionPromises\<close> is filled, the Flomo
  call first, and \<^verbatim>\<open>Promise.all\<close> is awaited. Each call runs as far as its \<^verbatim>\<open>fetch\<close>
  before the next call is made, and what either does with its response touches nothing the
  other reads; the calls are therefore run one after the other here, which gives the events
  of the trace in the order the script produces them.
\<close>

definition settleSubmissions :: "page \<Rightarrow> string \<Rightarrow> bool \<Rightarrow> bool \<Rightarrow> (outcome list) async" where
  "settleSubmissions p content toFlomo toObsidian =
     await (if toFlomo
            then await (call_method (state_flomoAPI p) ''sendToFlomo'' (\<lambda>api. sendToFlomo api content))
                   (\<lambda>pr. resolve [pr])
            else resolve [])
       (\<lambda>ps1. await (if toObsidian
                     then await (call_method (state_obsidianAPI p) ''sendToObsidian''
                                   (\<lambda>api. sendToObsidian api content))
                            (\<lambda>pr. resolve (ps1 @ [pr]))
                     else resolve ps1)
          (\<lambda>submissionPromises w. (promise_all submissionPromises, w)))"

definition successMessages_of :: "outcome list \<Rightarrow> string list" where
  "successMessages_of settledResults = map message (filter (\<lambda>r. success r) settledResults)"

definition errorMessages_of :: "outcome list \<Rightarrow> string list" where
  "errorMessages_of settledResults = map message (filter (\<lambda>r. \<not> success r) settledResults)"

text \<open>
  \<^verbatim>\<open>submitNote\<close>. The result is how its promise settles, the page and the world after it.
  A rejection leaves the page as it was when the exception was thrown.
\<close>

definition submitNote :: "page \<Rightarrow> world \<Rightarrow> unit settled \<times> page \<times> world" where
  "submitNote p w =
     (let content = trim (memoContent_value p) in
      if content = []
      then (Fulfilled (), updateStatus ''Note content cannot be empty.'' ''error'' p, w)
      else
        (let toFlomo = sendToFlomo_checked p;
             toObsidian = sendToObsidian_checked p
         in if \<not> toFlomo \<and> \<not> toObsidian
            then (Fulfilled (),
                  updateStatus ''Please select a destination (Flomo or Obsidian).'' ''error'' p, w)
            else
              (let p1 = (updateStatus ''Submitting...'' ''loading'' p)\<lparr>submitButton_disabled := True\<rparr>
               in case settleSubmissions p1 content toFlomo toObsidian w of
                    (Rejected e, w') \<Rightarrow> (Rejected e, p1, w')
                  | (Fulfilled settledResults, w') \<Rightarrow>
                      (let successMessages = successMessages_of settledResults;
                           errorMessages = errorMessages_of settledResults;
                           p2 = showResult successMessages errorMessages p1;
                           p3 = (if length errorMessages = 0
                                 then p2\<lparr>memoContent_value := []\<rparr> else p2);
                           p4 = p3\<lparr>submitButton_disabled := False\<rparr>
                       in (Fulfilled (), updateSubmitButtonState p4, w')))))"

text \<open>\<^verbatim>\<open>testFlomoConnection\<close> and \<^verbatim>\<open>testObsidianConnection\<close>\<close>

definition testFlomoConnection :: "page \<Rightarrow> world \<Rightarrow> unit settled \<times> page \<times> world" where
  "testFlomoConnection p w =
     (let p1 = updateStatus ''Testing Flomo connection...'' ''loading'' p;
          tempApi = \<lparr>api_url = Some (trim (flomoUrlInput_value p1))\<rparr>
      in case flomo_testConnection tempApi w of
           (Rejected e, w') \<Rightarrow> (Rejected e, p1, w')
         | (Fulfilled result, w') \<Rightarrow>
             (Fulfilled (),
              updateStatus (message result) (if success result then ''success'' else ''error'') p1,
              w'))"

definition testObsidianConnection :: "page \<Rightarrow> world \<Rightarrow> unit settled \<times> page \<times> world" where
  "testObsidianConnection p w =
     (let p1 = updateStatus ''Testing Obsidian connection...'' ''loading'' p;
          tempApi = new_ObsidianWriter (Some (trim (obsidianVaultInput_value p1)))
                      (Some (trim (obsidianTokenInput_value p1))) None
      in case obsidian_testConnection tempApi w of
           (Rejected e, w') \<Rightarrow> (Rejected e, p1, w')
         | (Fulfilled result, w') \<Rightarrow>
             (Fulfilled (),
              updateStatus (message result) (if success result then ''success'' else ''error'') p1,
              w'))"

section \<open>Reading a trace\<close>

text \<open>The client operations entered during a run, in order.\<close>

fun is_invoke :: "event \<Rightarrow> bool" where
  "is_invoke (Invoke c) = True"
| "is_invoke (FetchCall r) = False"

definition invocations :: "event list \<Rightarrow> event list" where
  "invocations tr = filter is_invoke tr"

text \<open>The requests handed to \<^verbatim>\<open>fetch\<close> during a run, in order.\<close>

fun fetched :: "event \<Rightarrow> request list" where
  "fetched (FetchCall r) = [r]"
| "fetched (Invoke c) = []"

definition requests :: "event list \<Rightarrow> request list" where
  "requests tr = concat (map fetched tr)"

section \<open>Concrete pages and worlds\<close>

definition example_date :: js_date where
  "example_date = \<lparr>getFullYear = 2024, getMonth = 0, getDate = 5, getHours = 9,
     getMinutes = 3, getSeconds = 7, getMilliseconds = 123\<rparr>"

definition ok_response :: response where
  "ok_response = \<lparr>status = 200, statusText = ''OK'',
     json_result = Rejected ''Unexpected end of JSON input'', text_result = Fulfilled []\<rparr>"

definition unauthorized_response :: response where
  "unauthorized_response = \<lparr>status = 401, statusText = ''Unauthorized'',
     json_result = Rejected ''Unexpected end of JSON input'', text_result = Fulfilled []\<rparr>"

definition rejecting_response :: response where
  "rejecting_response = \<lparr>status = 400, statusText = ''Bad Request'',
     json_result = Fulfilled (JObj [(''code'', JNum ''-1''), (''message'', JStr ''content is empty'')]),
     text_result = Fulfilled []\<rparr>"

text \<open>
  A response whose body parses to an object with the one property \<^verbatim>\<open>message\<close>, itself
  an object with the one property \<^verbatim>\<open>toString\<close> of value 0. (The raw text of a body is
  read by the Obsidian client only and is left empty in these responses.)
\<close>

definition odd_response :: response where
  "odd_response = \<lparr>status = 400, statusText = ''Bad Request'',
     json_result = Fulfilled (JObj [(''message'', JObj [(''toString'', JNum ''0'')])]),
     text_result = Fulfilled []\<rparr>"

text \<open>
  A response whose body parses to an object with the one property \<^verbatim>\<open>error\<close>, a string:
  the body has no \<^verbatim>\<open>message\<close> property.
\<close>

definition fieldless_response :: response where
  "fieldless_response = \<lparr>status = 500, statusText = ''Internal Server Error'',
     json_result = Fulfilled (JObj [(''error'', JStr ''Internal Server Error'')]),
     text_result = Fulfilled []\<rparr>"

definition not_found_response :: response where
  "not_found_response = \<lparr>status = 404, statusText = ''Not Found'',
     json_result = Rejected ''Unexpected end of JSON input'', text_result = Fulfilled []\<rparr>"

text \<open>A world in which every request is answered by the response \<open>r\<close>.\<close>

definition answering_world :: "response \<Rightarrow> world" where
  "answering_world r = \<lparr>net = (\<lambda>req. Fulfilled r), clock = example_date,
     toLocaleString = (\<lambda>d. ''1/5/2024, 9:03:07 AM''), trace = []\<rparr>"

text \<open>A world in which no request gets a response.\<close>

definition offline_world :: world where
  "offline_world = \<lparr>net = (\<lambda>req. Rejected ''Failed to fetch''), clock = example_date,
     toLocaleString = (\<lambda>d. ''1/5/2024, 9:03:07 AM''), trace = []\<rparr>"

definition example_flomo :: FlomoAPI where
  "example_flomo = \<lparr>api_url = Some ''https://flomoapp.com/iwh/abc/def/''\<rparr>"

definition unset_flomo :: FlomoAPI where
  "unset_flomo = \<lparr>api_url = None\<rparr>"

definition example_obsidian :: ObsidianWriter where
  "example_obsidian = new_ObsidianWriter (Some ''ob-flomo'') (Some ''secret'') None"

definition example_config :: config where
  "example_config = \<lparr>cfg_flomoUrl = None, cfg_obsidianVault = Some ''ob-flomo'',
     cfg_obsidianToken = Some ''secret'', cfg_sendToFlomo = Some True,
     cfg_sendToObsidian = Some True\<rparr>"

text \<open>
  A page on which \<^verbatim>\<open>reinitializeApis\<close> has not run, as the script leaves it until the stored
  configuration has loaded, and for good when loading it fails (the \<^verbatim>\<open>catch\<close> block of
  \<^verbatim>\<open>loadConfigAndSetup\<close>): the two clients are \<^verbatim>\<open>null\<close>. Both destinations are ticked and
  the note is \<^verbatim>\<open>" hello "\<close>.
\<close>

definition unready_page :: page where
  "unready_page =
     \<lparr>memoContent_value = '' hello '',
      sendToFlomo_checked = True,
      sendToObsidian_checked = True,
      submitButton_disabled = False,
      submitButton_text = ''Submit to Both'',
      statusMessage_text = [],
      statusMessage_class = ''status-message'',
      resultBox_hidden = True,
      resultBox_children = [],
      flomoUrlInput_value = [],
      obsidianVaultInput_value = ''ob-flomo'',
      obsidianTokenInput_value = ''secret'',
      state_config = example_config,
      state_flomoAPI = None,
      state_obsidianAPI = None\<rparr>"

text \<open>
  That page after \<^verbatim>\<open>reinitializeApis\<close>: the Flomo URL is not configured, the vault and the
  token are.
\<close>

definition example_page :: page where
  "example_page = reinitializeApis unready_page"

section \<open>Facts about the helpers\<close>

lemmas async_defs = try_catch_def await_def fetch_def resolve_def throw_def record_event_def

lemmas example_defs = example_date_def ok_response_def unauthorized_response_def
  rejecting_response_def odd_response_def fieldless_response_def not_found_response_def
  answering_world_def offline_world_def
  example_flomo_def unset_flomo_def example_obsidian_def example_config_def unready_page_def
  example_page_def

lemma show_nat_1: "n < 10 \<Longrightarrow> show_nat n = [digit_char n]"
  by (simp add: show_nat.simps)

lemma show_nat_2:
  "10 \<le> n \<Longrightarrow> n < 100 \<Longrightarrow> show_nat n = [digit_char (n div 10), digit_char (n mod 10)]"
  by (subst show_nat.simps) (simp add: show_nat_1)

lemma show_nat_3:
  "100 \<le> n \<Longrightarrow> n < 1000 \<Longrightarrow>
   show_nat n = [digit_char (n div 100), digit_char (n div 10 mod 10), digit_char (n mod 10)]"
  by (subst show_nat.simps) (simp add: show_nat_2 div_mult2_eq[symmetric])

lemma show_nat_4:
  "1000 \<le> n \<Longrightarrow> n < 10000 \<Longrightarrow>
   show_nat n = [digit_char (n div 1000), digit_char (n div 100 mod 10),
                 digit_char (n div 10 mod 10), digit_char (n mod 10)]"
  by (subst show_nat.simps) (simp add: show_nat_3 div_mult2_eq[symmetric])

lemma padStart_two_digits:
  assumes "n < 100"
  shows "padStart 2 CHR ''0'' (show_nat n) = [digit_char (n div 10), digit_char (n mod 10)]"
proof (cases "n < 10")
  case True
  then show ?thesis by (simp add: padStart_def show_nat_1 digit_char_def)
next
  case False
  with assms show ?thesis by (simp add: padStart_def show_nat_2)
qed

lemma trim_nonempty: "trim s \<noteq> [] \<Longrightarrow> s \<noteq> []"
  by (auto simp: trim_def)

lemma try_catch_resolve:
  "\<exists>x w'. try_catch m (\<lambda>e. resolve (h e)) w = (Fulfilled x, w')"
proof (cases "m w")
  case (Pair r w1)
  then show ?thesis by (cases r) (simp_all add: try_catch_def resolve_def)
qed

subsection \<open>The clients never reject\<close>

lemma sendToFlomo_settles: "\<exists>out w'. sendToFlomo this content w = (Fulfilled out, w')"
  unfolding sendToFlomo_def Let_def
  by (cases "str_truthy (api_url this)") (simp_all add: try_catch_resolve, simp add: resolve_def)

lemma sendToObsidian_settles: "\<exists>out w'. sendToObsidian this content w = (Fulfilled out, w')"
  unfolding sendToObsidian_def Let_def
  by (cases "vaultName this = [] \<or> \<not> str_truthy (apiToken this)")
     (simp_all add: try_catch_resolve, auto simp add: resolve_def)

lemma flomo_testConnection_settles: "\<exists>out w'. flomo_testConnection this w = (Fulfilled out, w')"
  unfolding flomo_testConnection_def Let_def by (rule sendToFlomo_settles)

lemma obsidian_testConnection_settles:
  "\<exists>out w'. obsidian_testConnection this w = (Fulfilled out, w')"
  unfolding obsidian_testConnection_def Let_def
  by (cases "vaultName this = [] \<or> \<not> str_truthy (apiToken this)")
     (simp_all add: try_catch_resolve, auto simp add: resolve_def)

subsection \<open>What the clients add to the trace\<close>

lemma sendToFlomo_trace:
  "trace (snd (sendToFlomo f c w)) = trace w @ Invoke (SendToFlomo c) #
     (if str_truthy (api_url f)
      then [FetchCall \<lparr>req_method = POST, req_url = str_of (api_url f),
              req_headers = [(''Content-Type'', ''application/json'')],
              req_body = Some (JObj [(''content'', JStr c)])\<rparr>]
      else [])"
  by (simp add: sendToFlomo_def Let_def async_defs split: settled.splits option.splits)

lemma sendToObsidian_trace:
  "trace (snd (sendToObsidian ob c w)) = trace w @ Invoke (SendToObsidian c) #
     (if vaultName ob \<noteq> [] \<and> str_truthy (apiToken ob)
      then [FetchCall \<lparr>req_method = POST, req_url = apiUrl ob @ ''/notes'',
              req_headers = [(''Content-Type'', ''application/json''),
                             (''Authorization'', ''Bearer '' @ str_of (apiToken ob))],
              req_body = Some (JObj [(''path'', JStr (vaultName ob @ ''/'' @ generateFileName (clock w))),
                                     (''content'', JStr c)])\<rparr>]
      else [])"
  by (simp add: sendToObsidian_def Let_def async_defs split: settled.splits option.splits)

lemma invocations_append: "invocations (xs @ ys) = invocations xs @ invocations ys"
  by (simp add: invocations_def)

lemma requests_append: "requests (xs @ ys) = requests xs @ requests ys"
  by (simp add: requests_def)

lemma sendToFlomo_invocations:
  "invocations (trace (snd (sendToFlomo f c w))) = invocations (trace w) @ [Invoke (SendToFlomo c)]"
  by (simp add: sendToFlomo_trace invocations_append) (simp add: invocations_def)

lemma sendToObsidian_invocations:
  "invocations (trace (snd (sendToObsidian ob c w)))
     = invocations (trace w) @ [Invoke (SendToObsidian c)]"
  by (simp add: sendToObsidian_trace invocations_append) (simp add: invocations_def)

subsection \<open>The join of the orchestrator\<close>

lemma settleSubmissions_ready:
  assumes "state_flomoAPI p = Some f" "state_obsidianAPI p = Some ob"
  shows "\<exists>o1 w1 o2 w2. sendToFlomo f c w = (Fulfilled o1, w1)
     \<and> sendToObsidian ob c (if tF then w1 else w) = (Fulfilled o2, w2)
     \<and> settleSubmissions p c tF tO w =
         (Fulfilled ((if tF then [o1] else []) @ (if tO then [o2] else [])),
          if tO then w2 else if tF then w1 else w)"
proof -
  obtain o1 w1 where 1: "sendToFlomo f c w = (Fulfilled o1, w1)"
    using sendToFlomo_settles by blast
  obtain o2 w2 where 2: "sendToObsidian ob c (if tF then w1 else w) = (Fulfilled o2, w2)"
    using sendToObsidian_settles by blast
  have "settleSubmissions p c tF tO w =
         (Fulfilled ((if tF then [o1] else []) @ (if tO then [o2] else [])),
          if tO then w2 else if tF then w1 else w)"
    using assms 1 2
    by (cases tF; cases tO) (simp_all add: settleSubmissions_def await_def call_method_def resolve_def)
  with 1 2 show ?thesis by blast
qed

lemma settleSubmissions_invocations:
  assumes "state_flomoAPI p = Some f" "state_obsidianAPI p = Some ob"
  shows "invocations (trace (snd (settleSubmissions p c tF tO w))) =
     invocations (trace w) @ (if tF then [Invoke (SendToFlomo c)] else [])
       @ (if tO then [Invoke (SendToObsidian c)] else [])"
proof -
  obtain o1 w1 o2 w2 where 1: "sendToFlomo f c w = (Fulfilled o1, w1)"
    and 2: "sendToObsidian ob c (if tF then w1 else w) = (Fulfilled o2, w2)"
    and 3: "settleSubmissions p c tF tO w =
         (Fulfilled ((if tF then [o1] else []) @ (if tO then [o2] else [])),
          if tO then w2 else if tF then w1 else w)"
    using settleSubmissions_ready [OF assms] by blast
  have a: "invocations (trace w1) = invocations (trace w) @ [Invoke (SendToFlomo c)]"
    using sendToFlomo_invocations [of f c w] 1 by simp
  have b: "invocations (trace w2)
      = invocations (trace (if tF then w1 else w)) @ [Invoke (SendToObsidian c)]"
    using sendToObsidian_invocations [of ob c "if tF then w1 else w"] 2 by simp
  show ?thesis using 3 a b by (cases tF; cases tO) simp_all
qed

lemma settleSubmissions_page:
  "state_flomoAPI p' = state_flomoAPI p \<Longrightarrow> state_obsidianAPI p' = state_obsidianAPI p \<Longrightarrow>
   settleSubmissions p' = settleSubmissions p"
  by (simp add: settleSubmissions_def fun_eq_iff cong: if_cong)

lemma submitNote_started:
  assumes "trim (memoContent_value p) \<noteq> []" "sendToFlomo_checked p \<or> sendToObsidian_checked p"
    and "settleSubmissions p (trim (memoContent_value p)) (sendToFlomo_checked p)
           (sendToObsidian_checked p) w = (Fulfilled outs, w')"
  shows "\<exists>p'. submitNote p w = (Fulfilled (), p', w')
     \<and> memoContent_value p' = (if errorMessages_of outs = [] then [] else memoContent_value p)"
proof -
  let ?p1 = "(updateStatus ''Submitting...'' ''loading'' p)\<lparr>submitButton_disabled := True\<rparr>"
  have "settleSubmissions ?p1 = settleSubmissions p"
    by (rule settleSubmissions_page) (simp_all add: updateStatus_def)
  with assms show ?thesis
    by (auto simp add: submitNote_def Let_def updateSubmitButtonState_def showResult_def
          updateStatus_def)
qed

lemma reinitializeApis_creates_clients:
  "state_flomoAPI (reinitializeApis p) = Some \<lparr>api_url = cfg_flomoUrl (state_config p)\<rparr>
   \<and> state_obsidianAPI (reinitializeApis p)
       = Some (new_ObsidianWriter (cfg_obsidianVault (state_config p))
                 (cfg_obsidianToken (state_config p)) None)"
  by (simp add: reinitializeApis_def)

lemma example_page_ready:
  "state_flomoAPI example_page = Some unset_flomo
   \<and> state_obsidianAPI example_page = Some example_obsidian
   \<and> trim (memoContent_value example_page) = ''hello''
   \<and> sendToFlomo_checked example_page \<and> sendToObsidian_checked example_page"
  by (simp add: example_defs reinitializeApis_def trim_def js_whitespace_def)

lemmas model_defs = submitNote_def settleSubmissions_def call_method_def sendToFlomo_def
  sendToObsidian_def updateStatus_def showResult_def updateSubmitButtonState_def
  successMessages_of_def errorMessages_of_def reinitializeApis_def new_ObsidianWriter_def
  trim_def js_whitespace_def join_strings_def Let_def

section \<open>The claims\<close>

text \<open>
  C1 (as amended). On a page whose two clients have been created (\<^verbatim>\<open>reinitializeApis\<close> has
  run), a submission with a note that is not empty after trimming and with at least one
  destination ticked enters the Flomo client's send exactly once if the Flomo box is ticked
  and not at all otherwise, and likewise the Obsidian client's send for the Obsidian box;
  each call is given the trimmed note.
\<close>

theorem C1_one_send_per_selected_destination:
  assumes "trim (memoContent_value p) \<noteq> []"
    and "sendToFlomo_checked p \<or> sendToObsidian_checked p"
    and "state_flomoAPI p = Some f" and "state_obsidianAPI p = Some ob"
  shows "invocations (trace (snd (snd (submitNote p w)))) =
     invocations (trace w)
       @ (if sendToFlomo_checked p then [Invoke (SendToFlomo (trim (memoContent_value p)))] else [])
       @ (if sendToObsidian_checked p then [Invoke (SendToObsidian (trim (memoContent_value p)))] else [])"
proof -
  let ?c = "trim (memoContent_value p)"
  obtain o1 w1 o2 w2 where
    "settleSubmissions p ?c (sendToFlomo_checked p) (sendToObsidian_checked p) w =
       (Fulfilled ((if sendToFlomo_checked p then [o1] else [])
                    @ (if sendToObsidian_checked p then [o2] else [])),
        if sendToObsidian_checked p then w2 else if sendToFlomo_checked p then w1 else w)"
    using settleSubmissions_ready [OF assms(3,4)] by blast
  then obtain outs w' where s:
    "settleSubmissions p ?c (sendToFlomo_checked p) (sendToObsidian_checked p) w = (Fulfilled outs, w')"
    by blast
  obtain p' where "submitNote p w = (Fulfilled (), p', w')"
    using submitNote_started [OF assms(1,2) s] by blast
  then have "snd (snd (submitNote p w))
      = snd (settleSubmissions p ?c (sendToFlomo_checked p) (sendToObsidian_checked p) w)"
    using s by simp
  then show ?thesis
    using settleSubmissions_invocations [OF assms(3,4)] by simp
qed

theorem C1_witness:
  "trim (memoContent_value example_page) \<noteq> []
   \<and> (sendToFlomo_checked example_page \<or> sendToObsidian_checked example_page)
   \<and> invocations (trace (snd (snd (submitNote example_page offline_world))))
       = [Invoke (SendToFlomo ''hello''), Invoke (SendToObsidian ''hello'')]
   \<and> invocations (trace (snd (snd (submitNote (example_page\<lparr>sendToFlomo_checked := False\<rparr>)
         offline_world))))
       = [Invoke (SendToObsidian ''hello'')]"
proof -
  have r: "state_flomoAPI example_page = Some unset_flomo"
    "state_obsidianAPI example_page = Some example_obsidian"
    "trim (memoContent_value example_page) = ''hello''"
    "sendToFlomo_checked example_page" "sendToObsidian_checked example_page"
    using example_page_ready by simp_all
  have t: "invocations (trace offline_world) = []"
    by (simp add: offline_world_def invocations_def)
  show ?thesis
    using C1_one_send_per_selected_destination
            [of example_page unset_flomo example_obsidian offline_world]
          C1_one_send_per_selected_destination
            [of "example_page\<lparr>sendToFlomo_checked := False\<rparr>" unset_flomo example_obsidian
                offline_world]
          r t
    by simp
qed

text \<open>
  The claim without the clients: on the page as it is before \<^verbatim>\<open>reinitializeApis\<close> has run,
  with the Flomo box ticked and the note \<^verbatim>\<open>" hello "\<close>, the submission throws at the call
  on \<^verbatim>\<open>null\<close>, its promise is rejected, no send of either client is entered and the submit
  button stays disabled.
\<close>

theorem C1_counterexample:
  "trim (memoContent_value unready_page) = ''hello''
   \<and> sendToFlomo_checked unready_page
   \<and> state_flomoAPI unready_page = None
   \<and> invocations (trace offline_world) = []
   \<and> invocations (trace (snd (snd (submitNote unready_page offline_world)))) = []
   \<and> fst (submitNote unready_page offline_world) = Rejected (null_error_message ''sendToFlomo'')
   \<and> submitButton_disabled (fst (snd (submitNote unready_page offline_world)))"
  by (simp add: model_defs async_defs example_defs invocations_def)

text \<open>
  C2. Once the outcomes of a submission are merged, the note input is the empty string if
  no selected destination failed and keeps its content from before the submission, untrimmed,
  if one did; so it is cleared exactly when the list of failure messages is empty.
\<close>

theorem C2_input_cleared_iff_no_failure:
  assumes "trim (memoContent_value p) \<noteq> []"
    and "sendToFlomo_checked p \<or> sendToObsidian_checked p"
    and "state_flomoAPI p = Some f" and "state_obsidianAPI p = Some ob"
  shows "\<exists>outs p' w'.
     settleSubmissions p (trim (memoContent_value p)) (sendToFlomo_checked p)
        (sendToObsidian_checked p) w = (Fulfilled outs, w')
     \<and> submitNote p w = (Fulfilled (), p', w')
     \<and> memoContent_value p' = (if errorMessages_of outs = [] then [] else memoContent_value p)
     \<and> (memoContent_value p' = [] \<longleftrightarrow> errorMessages_of outs = [])"
proof -
  let ?c = "trim (memoContent_value p)"
  obtain o1 w1 o2 w2 where
    "settleSubmissions p ?c (sendToFlomo_checked p) (sendToObsidian_checked p) w =
       (Fulfilled ((if sendToFlomo_checked p then [o1] else [])
                    @ (if sendToObsidian_checked p then [o2] else [])),
        if sendToObsidian_checked p then w2 else if sendToFlomo_checked p then w1 else w)"
    using settleSubmissions_ready [OF assms(3,4)] by blast
  then obtain outs w' where s:
    "settleSubmissions p ?c (sendToFlomo_checked p) (sendToObsidian_checked p) w = (Fulfilled outs, w')"
    by blast
  obtain p' where p': "submitNote p w = (Fulfilled (), p', w')"
    "memoContent_value p' = (if errorMessages_of outs = [] then [] else memoContent_value p)"
    using submitNote_started [OF assms(1,2) s] by blast
  have "memoContent_value p \<noteq> []"
    using assms(1) by (rule trim_nonempty)
  with p'(2) have "memoContent_value p' = [] \<longleftrightarrow> errorMessages_of outs = []"
    by simp
  with s p' show ?thesis by blast
qed

theorem C2_witness:
  "trim (memoContent_value example_page) \<noteq> []
   \<and> (sendToFlomo_checked example_page \<or> sendToObsidian_checked example_page)
   \<and> (\<exists>outs p' w'.
         settleSubmissions example_page ''hello'' True True offline_world = (Fulfilled outs, w')
         \<and> submitNote example_page offline_world = (Fulfilled (), p', w')
         \<and> memoContent_value p' = (if errorMessages_of outs = [] then [] else '' hello '')
         \<and> (memoContent_value p' = [] \<longleftrightarrow> errorMessages_of outs = []))
   \<and> memoContent_value (fst (snd (submitNote example_page offline_world))) = '' hello ''
   \<and> memoContent_value (fst (snd (submitNote (example_page\<lparr>sendToFlomo_checked := False\<rparr>)
         (answering_world ok_response)))) = []"
proof -
  have r: "state_flomoAPI example_page = Some unset_flomo"
    "state_obsidianAPI example_page = Some example_obsidian"
    and t: "trim (memoContent_value example_page) = ''hello''"
    and b: "sendToFlomo_checked example_page = True" "sendToObsidian_checked example_page = True"
    using example_page_ready by simp_all
  have m: "memoContent_value example_page = '' hello ''"
    by (simp add: example_page_def unready_page_def reinitializeApis_def)
  have h1: "trim (memoContent_value example_page) \<noteq> []"
    by (simp add: t)
  have h2: "sendToFlomo_checked example_page \<or> sendToObsidian_checked example_page"
    by (simp add: b)
  have inst: "\<exists>outs p' w'.
         settleSubmissions example_page ''hello'' True True offline_world = (Fulfilled outs, w')
         \<and> submitNote example_page offline_world = (Fulfilled (), p', w')
         \<and> memoContent_value p' = (if errorMessages_of outs = [] then [] else '' hello '')
         \<and> (memoContent_value p' = [] \<longleftrightarrow> errorMessages_of outs = [])"
    using C2_input_cleared_iff_no_failure [OF h1 h2 r, of offline_world]
    by (simp only: t b m t [unfolded m])
  have e1: "memoContent_value (fst (snd (submitNote example_page offline_world))) = '' hello ''"
    by (simp add: model_defs async_defs example_defs)
  have e2: "memoContent_value (fst (snd (submitNote (example_page\<lparr>sendToFlomo_checked := False\<rparr>)
         (answering_world ok_response)))) = []"
    by (simp add: model_defs async_defs example_defs response_ok_def)
  show ?thesis
    by (intro conjI) (rule h1, rule h2, rule inst, rule e1, rule e2)
qed

text \<open>
  C3. Each of the four client operations settles to an outcome record and never rejects,
  whatever the network does. Hence, when the two clients exist, the join of the orchestrator
  is fulfilled with the outcome of every selected destination, in the order Flomo, Obsidian:
  the Obsidian send is run and its outcome collected whether the Flomo outcome is a success
  or a failure, and conversely.
\<close>

theorem C3_every_operation_settles:
  "(\<exists>out w'. sendToFlomo f c w = (Fulfilled out, w'))
   \<and> (\<exists>out w'. sendToObsidian ob c w = (Fulfilled out, w'))
   \<and> (\<exists>out w'. flomo_testConnection f w = (Fulfilled out, w'))
   \<and> (\<exists>out w'. obsidian_testConnection ob w = (Fulfilled out, w'))
   \<and> (state_flomoAPI p = Some f \<and> state_obsidianAPI p = Some ob \<longrightarrow>
        (\<exists>o1 w1 o2 w2. sendToFlomo f c w = (Fulfilled o1, w1)
           \<and> sendToObsidian ob c (if tF then w1 else w) = (Fulfilled o2, w2)
           \<and> settleSubmissions p c tF tO w =
               (Fulfilled ((if tF then [o1] else []) @ (if tO then [o2] else [])),
                if tO then w2 else if tF then w1 else w)))"
proof -
  have "state_flomoAPI p = Some f \<and> state_obsidianAPI p = Some ob \<longrightarrow>
        (\<exists>o1 w1 o2 w2. sendToFlomo f c w = (Fulfilled o1, w1)
           \<and> sendToObsidian ob c (if tF then w1 else w) = (Fulfilled o2, w2)
           \<and> settleSubmissions p c tF tO w =
               (Fulfilled ((if tF then [o1] else []) @ (if tO then [o2] else [])),
                if tO then w2 else if tF then w1 else w))"
    using settleSubmissions_ready by blast
  then show ?thesis
    using sendToFlomo_settles [of f c w] sendToObsidian_settles [of ob c w]
      flomo_testConnection_settles [of f w] obsidian_testConnection_settles [of ob w]
    by blast
qed

theorem C3_witness:
  "state_flomoAPI example_page = Some unset_flomo
   \<and> state_obsidianAPI example_page = Some example_obsidian
   \<and> (\<exists>o1 w1 o2 w2.
         sendToFlomo unset_flomo ''hello'' (answering_world ok_response) = (Fulfilled o1, w1)
         \<and> sendToObsidian example_obsidian ''hello'' w1 = (Fulfilled o2, w2)
         \<and> settleSubmissions example_page ''hello'' True True (answering_world ok_response)
             = (Fulfilled [o1, o2], w2))
   \<and> fst (settleSubmissions example_page ''hello'' True True (answering_world ok_response))
       = Fulfilled [\<lparr>success = False, message = ''Flomo API URL is not set.''\<rparr>,
                    \<lparr>success = True, message = ''Note '' @ [CHR 0x27] @ ''2024-01-05_09-03-07.md''
                       @ [CHR 0x27] @ '' created in Obsidian successfully.''\<rparr>]"
proof -
  have r: "state_flomoAPI example_page = Some unset_flomo"
    "state_obsidianAPI example_page = Some example_obsidian"
    using example_page_ready by simp_all
  have e: "fst (settleSubmissions example_page ''hello'' True True (answering_world ok_response))
       = Fulfilled [\<lparr>success = False, message = ''Flomo API URL is not set.''\<rparr>,
                    \<lparr>success = True, message = ''Note '' @ [CHR 0x27] @ ''2024-01-05_09-03-07.md''
                       @ [CHR 0x27] @ '' created in Obsidian successfully.''\<rparr>]"
    by (simp add: model_defs async_defs example_defs response_ok_def generateFileName_def
          show_int_def show_nat.simps padStart_def digit_char_def)
  show ?thesis
    using C3_every_operation_settles
            [of unset_flomo "''hello''" "answering_world ok_response" example_obsidian
                example_page True True] r e
    by simp
qed

text \<open>
  What a Flomo send reports when it is answered by a response that is not a success. If
  reading the body as JSON fails, or gives a falsy value, the failure message carries the
  status code. If it gives a truthy value, the message carries the \<^verbatim>\<open>message\<close> property
  of that value converted to a string, which is the text \<^verbatim>\<open>undefined\<close> when the value has
  no such property; when the conversion throws, the outcome is that of the \<^verbatim>\<open>catch\<close>
  block.
\<close>

lemma flomo_failure_detail:
  assumes "str_truthy (api_url f)"
    and "net w \<lparr>req_method = POST, req_url = str_of (api_url f),
              req_headers = [(''Content-Type'', ''application/json'')],
              req_body = Some (JObj [(''content'', JStr c)])\<rparr> = Fulfilled r"
    and "\<not> response_ok r"
  shows "fst (sendToFlomo f c w) = Fulfilled \<lparr>success = False, message =
     (case json_result r of
        Rejected e \<Rightarrow> ''Failed to send to Flomo. HTTP Error: '' @ show_nat (status r)
      | Fulfilled v \<Rightarrow>
          if js_truthy v
          then (case js_to_string (prop_message v) of
                  Some m \<Rightarrow> ''Failed to send to Flomo. '' @ m
                | None \<Rightarrow> ''Network or other error: '' @ type_error_message)
          else ''Failed to send to Flomo. HTTP Error: '' @ show_nat (status r))\<rparr>"
  using assms
  by (simp add: sendToFlomo_def Let_def async_defs json_or_null_def
        split: option.splits settled.splits)

lemma flomo_failure_detail_examples:
  "fst (sendToFlomo example_flomo ''hi'' (answering_world unauthorized_response))
       = Fulfilled \<lparr>success = False, message = ''Failed to send to Flomo. HTTP Error: 401''\<rparr>
   \<and> fst (sendToFlomo example_flomo ''hi'' (answering_world rejecting_response))
       = Fulfilled \<lparr>success = False, message = ''Failed to send to Flomo. content is empty''\<rparr>"
proof -
  have h: "str_truthy (api_url example_flomo)"
    by (simp add: example_flomo_def)
  have n1: "\<not> response_ok unauthorized_response" and n2: "\<not> response_ok rejecting_response"
    by (simp_all add: response_ok_def unauthorized_response_def rejecting_response_def)
  have a1: "net (answering_world unauthorized_response) q = Fulfilled unauthorized_response"
    and a2: "net (answering_world rejecting_response) q = Fulfilled rejecting_response" for q
    by (simp_all add: answering_world_def)
  have s: "show_nat 401 = ''401''"
    by (simp add: show_nat.simps digit_char_def)
  show ?thesis
    using flomo_failure_detail [OF h a1 n1, of "''hi''"] flomo_failure_detail [OF h a2 n2, of "''hi''"] s
    by (simp add: unauthorized_response_def rejecting_response_def)
qed

text \<open>
  A \<^verbatim>\<open>message\<close> property that cannot be converted to a string: the send ends in its
  \<^verbatim>\<open>catch\<close> block and reports a network error, although the server answered.
\<close>

lemma flomo_failure_unconvertible:
  "\<not> response_ok odd_response
   \<and> js_to_string (prop_message (JObj [(''message'', JObj [(''toString'', JNum ''0'')])])) = None
   \<and> fst (sendToFlomo example_flomo ''hi'' (answering_world odd_response))
       = Fulfilled \<lparr>success = False,
           message = ''Network or other error: Cannot convert object to primitive value''\<rparr>"
  by (simp add: sendToFlomo_def Let_def async_defs json_or_null_def example_defs response_ok_def
        type_error_message_def)

text \<open>
  C4. The claim: for every response to the Flomo send that is not a success, the detail
  in the failure message is the \<^verbatim>\<open>message\<close> field of the JSON body or, when the body does
  not parse, the status code. The code, on a response of status 500 whose body is the JSON
  object with the single field \<^verbatim>\<open>error\<close>: the body parses, the parsed value is truthy, it
  has no \<^verbatim>\<open>message\<close> field, and the failure message is "Failed to send to Flomo. undefined",
  which carries neither a field of the body nor the status code.
\<close>

theorem C4_failing_input:
  "\<not> response_ok fieldless_response
   \<and> json_result fieldless_response = Fulfilled (JObj [(''error'', JStr ''Internal Server Error'')])
   \<and> map_of [(''error'', JStr ''Internal Server Error'')] ''message'' = None
   \<and> fst (sendToFlomo example_flomo ''hi'' (answering_world fieldless_response))
       = Fulfilled \<lparr>success = False, message = ''Failed to send to Flomo. undefined''\<rparr>"
  by (simp add: sendToFlomo_def Let_def async_defs json_or_null_def example_defs response_ok_def)

text \<open>
  C5. The Obsidian connection test, with vault name and token set, is answered by a
  response. A success status gives the success outcome. Status 401 gives the failure
  message "Connection failed: Unauthorized. Check your API Token."; status 404 gives the
  failure message "Connection failed: Not Found. Check if the 'Local REST API' plugin is
  enabled in Obsidian."; any other status gives the failure message "Obsidian API
  connection failed. HTTP ", the status in decimal, ": " and the status text. The three
  failure messages are pairwise different, whatever the status and the status text.
\<close>

theorem C5_probe_messages:
  assumes "vaultName ob \<noteq> []" and "str_truthy (apiToken ob)"
    and "net w \<lparr>req_method = HEAD, req_url = apiUrl ob @ ''/vault/'',
              req_headers = [(''Authorization'', ''Bearer '' @ str_of (apiToken ob))],
              req_body = None\<rparr> = Fulfilled r"
  shows "fst (obsidian_testConnection ob w) = Fulfilled
     (if response_ok r
      then \<lparr>success = True, message = ''Obsidian API connection successful.''\<rparr>
      else if status r = 401
      then \<lparr>success = False,
             message = ''Connection failed: Unauthorized. Check your API Token.''\<rparr>
      else if status r = 404
      then \<lparr>success = False,
             message = ''Connection failed: Not Found. Check if the '' @ [CHR 0x27]
               @ ''Local REST API'' @ [CHR 0x27] @ '' plugin is enabled in Obsidian.''\<rparr>
      else \<lparr>success = False,
             message = ''Obsidian API connection failed. HTTP '' @ show_nat (status r)
               @ '': '' @ statusText r\<rparr>)
   \<and> ''Connection failed: Unauthorized. Check your API Token.''
       \<noteq> ''Connection failed: Not Found. Check if the '' @ [CHR 0x27]
           @ ''Local REST API'' @ [CHR 0x27] @ '' plugin is enabled in Obsidian.''
   \<and> ''Obsidian API connection failed. HTTP '' @ show_nat s @ '': '' @ t
       \<noteq> ''Connection failed: Unauthorized. Check your API Token.''
   \<and> ''Obsidian API connection failed. HTTP '' @ show_nat s @ '': '' @ t
       \<noteq> ''Connection failed: Not Found. Check if the '' @ [CHR 0x27]
           @ ''Local REST API'' @ [CHR 0x27] @ '' plugin is enabled in Obsidian.''"
proof (intro conjI)
  show "fst (obsidian_testConnection ob w) = Fulfilled
     (if response_ok r
      then \<lparr>success = True, message = ''Obsidian API connection successful.''\<rparr>
      else if status r = 401
      then \<lparr>success = False,
             message = ''Connection failed: Unauthorized. Check your API Token.''\<rparr>
      else if status r = 404
      then \<lparr>success = False,
             message = ''Connection failed: Not Found. Check if the '' @ [CHR 0x27]
               @ ''Local REST API'' @ [CHR 0x27] @ '' plugin is enabled in Obsidian.''\<rparr>
      else \<lparr>success = False,
             message = ''Obsidian API connection failed. HTTP '' @ show_nat (status r)
               @ '': '' @ statusText r\<rparr>)"
    using assms
    by (simp add: obsidian_testConnection_def Let_def async_defs msg_unauthorized_def
          msg_not_found_def msg_generic_def)
qed simp_all

theorem C5_witness:
  "vaultName example_obsidian \<noteq> [] \<and> str_truthy (apiToken example_obsidian)
   \<and> fst (obsidian_testConnection example_obsidian (answering_world ok_response))
       = Fulfilled \<lparr>success = True, message = ''Obsidian API connection successful.''\<rparr>
   \<and> fst (obsidian_testConnection example_obsidian (answering_world unauthorized_response))
       = Fulfilled \<lparr>success = False,
           message = ''Connection failed: Unauthorized. Check your API Token.''\<rparr>
   \<and> fst (obsidian_testConnection example_obsidian (answering_world not_found_response))
       = Fulfilled \<lparr>success = False,
           message = ''Connection failed: Not Found. Check if the '' @ [CHR 0x27]
             @ ''Local REST API'' @ [CHR 0x27] @ '' plugin is enabled in Obsidian.''\<rparr>
   \<and> fst (obsidian_testConnection example_obsidian (answering_world fieldless_response))
       = Fulfilled \<lparr>success = False,
           message = ''Obsidian API connection failed. HTTP 500: Internal Server Error''\<rparr>"
proof -
  have h: "vaultName example_obsidian \<noteq> []" "str_truthy (apiToken example_obsidian)"
    by (simp_all add: example_obsidian_def new_ObsidianWriter_def Let_def trim_def js_whitespace_def)
  have a: "net (answering_world x) q = Fulfilled x" for x q
    by (simp add: answering_world_def)
  have n: "response_ok ok_response"
    "\<not> response_ok unauthorized_response" "status unauthorized_response = 401"
    "\<not> response_ok not_found_response" "status not_found_response = 404"
    "\<not> response_ok fieldless_response" "status fieldless_response = 500"
    "statusText fieldless_response = ''Internal Server Error''"
    by (simp_all add: response_ok_def unauthorized_response_def ok_response_def
          not_found_response_def fieldless_response_def)
  have s: "show_nat 500 = ''500''"
    by (simp add: show_nat.simps digit_char_def)
  show ?thesis
    using C5_probe_messages [OF h a, of ok_response]
          C5_probe_messages [OF h a, of unauthorized_response]
          C5_probe_messages [OF h a, of not_found_response]
          C5_probe_messages [OF h a, of fieldless_response] h n s
    by simp
qed

text \<open>
  C6. With no webhook URL (\<^verbatim>\<open>undefined\<close> or the empty string) the Flomo send returns
  the failure outcome "Flomo API URL is not set." and calls \<^verbatim>\<open>fetch\<close> not once; with an
  empty vault name or no API token the Obsidian send returns the failure outcome
  "Obsidian Vault Name or API Token is not set." and calls \<^verbatim>\<open>fetch\<close> not once. Both hold
  for every note content.
\<close>

theorem C6_missing_configuration:
  "(\<not> str_truthy (api_url f) \<longrightarrow>
      fst (sendToFlomo f c w)
        = Fulfilled \<lparr>success = False, message = ''Flomo API URL is not set.''\<rparr>
      \<and> requests (trace (snd (sendToFlomo f c w))) = requests (trace w))
   \<and> (vaultName ob = [] \<or> \<not> str_truthy (apiToken ob) \<longrightarrow>
      fst (sendToObsidian ob c w)
        = Fulfilled \<lparr>success = False, message = ''Obsidian Vault Name or API Token is not set.''\<rparr>
      \<and> requests (trace (snd (sendToObsidian ob c w))) = requests (trace w))"
proof (intro conjI impI)
  assume "\<not> str_truthy (api_url f)"
  then show "fst (sendToFlomo f c w)
        = Fulfilled \<lparr>success = False, message = ''Flomo API URL is not set.''\<rparr>"
    and "requests (trace (snd (sendToFlomo f c w))) = requests (trace w)"
    by (simp_all add: sendToFlomo_def Let_def resolve_def record_event_def requests_def)
next
  assume "vaultName ob = [] \<or> \<not> str_truthy (apiToken ob)"
  then show "fst (sendToObsidian ob c w)
        = Fulfilled \<lparr>success = False, message = ''Obsidian Vault Name or API Token is not set.''\<rparr>"
    and "requests (trace (snd (sendToObsidian ob c w))) = requests (trace w)"
    by (auto simp add: sendToObsidian_def Let_def resolve_def record_event_def requests_def)
qed

theorem C6_witness:
  "\<not> str_truthy (api_url unset_flomo)
   \<and> fst (sendToFlomo unset_flomo ''hello'' (answering_world ok_response))
        = Fulfilled \<lparr>success = False, message = ''Flomo API URL is not set.''\<rparr>
   \<and> requests (trace (snd (sendToFlomo unset_flomo ''hello'' (answering_world ok_response)))) = []
   \<and> \<not> str_truthy (apiToken (example_obsidian\<lparr>apiToken := Some []\<rparr>))
   \<and> fst (sendToObsidian (example_obsidian\<lparr>apiToken := Some []\<rparr>) ''hello''
          (answering_world ok_response))
        = Fulfilled \<lparr>success = False, message = ''Obsidian Vault Name or API Token is not set.''\<rparr>
   \<and> requests (trace (snd (sendToObsidian (example_obsidian\<lparr>apiToken := Some []\<rparr>) ''hello''
          (answering_world ok_response)))) = []"
proof -
  have h: "\<not> str_truthy (api_url unset_flomo)"
    "\<not> str_truthy (apiToken (example_obsidian\<lparr>apiToken := Some []\<rparr>))"
    by (simp_all add: unset_flomo_def)
  have t: "requests (trace (answering_world ok_response)) = []"
    by (simp add: answering_world_def requests_def)
  show ?thesis
    using C6_missing_configuration
            [of unset_flomo "''hello''" "answering_world ok_response"
                "example_obsidian\<lparr>apiToken := Some []\<rparr>"] h t
    by simp
qed

text \<open>
  C7. A submission whose note is empty after trimming sets the status to
  "Note content cannot be empty."; one whose note is not, with neither destination ticked,
  sets it to "Please select a destination (Flomo or Obsidian).". In both cases nothing else
  happens: the world, and so the trace of client calls and requests, is unchanged, and the
  page differs from the one before by the status update alone (the submit button is not
  disabled, the result box is hidden, the note stays).
\<close>

theorem C7_validation_stops_submission:
  "(trim (memoContent_value p) = [] \<longrightarrow>
      submitNote p w = (Fulfilled (), updateStatus ''Note content cannot be empty.'' ''error'' p, w))
   \<and> (trim (memoContent_value p) \<noteq> [] \<and> \<not> sendToFlomo_checked p \<and> \<not> sendToObsidian_checked p \<longrightarrow>
      submitNote p w =
        (Fulfilled (), updateStatus ''Please select a destination (Flomo or Obsidian).'' ''error'' p, w))
   \<and> statusMessage_text (updateStatus msg type p) = msg
   \<and> memoContent_value (updateStatus msg type p) = memoContent_value p
   \<and> submitButton_disabled (updateStatus msg type p) = submitButton_disabled p"
  by (simp add: submitNote_def Let_def updateStatus_def)

theorem C7_witness:
  "trim (memoContent_value (example_page\<lparr>memoContent_value := [CHR 0x20, CHR 0x0A, CHR 0x09]\<rparr>)) = []
   \<and> submitNote (example_page\<lparr>memoContent_value := [CHR 0x20, CHR 0x0A, CHR 0x09]\<rparr>) offline_world
       = (Fulfilled (),
          updateStatus ''Note content cannot be empty.'' ''error''
            (example_page\<lparr>memoContent_value := [CHR 0x20, CHR 0x0A, CHR 0x09]\<rparr>),
          offline_world)
   \<and> trim (memoContent_value (example_page\<lparr>sendToFlomo_checked := False,
                                             sendToObsidian_checked := False\<rparr>)) \<noteq> []
   \<and> submitNote (example_page\<lparr>sendToFlomo_checked := False, sendToObsidian_checked := False\<rparr>)
         offline_world
       = (Fulfilled (),
          updateStatus ''Please select a destination (Flomo or Obsidian).'' ''error''
            (example_page\<lparr>sendToFlomo_checked := False, sendToObsidian_checked := False\<rparr>),
          offline_world)
   \<and> trace offline_world = []"
proof -
  have h1: "trim (memoContent_value (example_page\<lparr>memoContent_value := [CHR 0x20, CHR 0x0A, CHR 0x09]\<rparr>)) = []"
    by (simp add: trim_def js_whitespace_def)
  have h2: "trim (memoContent_value (example_page\<lparr>sendToFlomo_checked := False,
                                             sendToObsidian_checked := False\<rparr>)) \<noteq> []"
    using example_page_ready by simp
  have t: "trace offline_world = []"
    by (simp add: offline_world_def)
  show ?thesis
    using C7_validation_stops_submission
            [of "example_page\<lparr>memoContent_value := [CHR 0x20, CHR 0x0A, CHR 0x09]\<rparr>" offline_world]
          C7_validation_stops_submission
            [of "example_page\<lparr>sendToFlomo_checked := False, sendToObsidian_checked := False\<rparr>"
                offline_world]
          h1 h2 t
    by simp
qed

text \<open>
  C8. The generated filename is a function of the local date and time alone: the year in
  decimal, then month (counted from 1), day, hours, minutes and seconds as two decimal
  digits each, joined as \<^verbatim>\<open>YYYY-MM-DD_HH-mm-ss.md\<close>; the year has four digits from 1000
  to 9999. Two dates in the same wall-clock second, whatever their milliseconds, give the
  same filename.
\<close>

theorem C8_filename_format:
  "(valid_date d \<longrightarrow>
      generateFileName d =
        show_int (getFullYear d) @ [CHR ''-'',
          digit_char ((getMonth d + 1) div 10), digit_char ((getMonth d + 1) mod 10), CHR ''-'',
          digit_char (getDate d div 10), digit_char (getDate d mod 10), CHR ''_'',
          digit_char (getHours d div 10), digit_char (getHours d mod 10), CHR ''-'',
          digit_char (getMinutes d div 10), digit_char (getMinutes d mod 10), CHR ''-'',
          digit_char (getSeconds d div 10), digit_char (getSeconds d mod 10)] @ ''.md'')
   \<and> (1000 \<le> getFullYear d \<and> getFullYear d \<le> 9999 \<longrightarrow>
      show_int (getFullYear d) =
        [digit_char (nat (getFullYear d) div 1000), digit_char (nat (getFullYear d) div 100 mod 10),
         digit_char (nat (getFullYear d) div 10 mod 10), digit_char (nat (getFullYear d) mod 10)])
   \<and> (same_second a b \<longrightarrow> generateFileName a = generateFileName b)"
proof (intro conjI impI)
  assume "valid_date d"
  then show "generateFileName d =
        show_int (getFullYear d) @ [CHR ''-'',
          digit_char ((getMonth d + 1) div 10), digit_char ((getMonth d + 1) mod 10), CHR ''-'',
          digit_char (getDate d div 10), digit_char (getDate d mod 10), CHR ''_'',
          digit_char (getHours d div 10), digit_char (getHours d mod 10), CHR ''-'',
          digit_char (getMinutes d div 10), digit_char (getMinutes d mod 10), CHR ''-'',
          digit_char (getSeconds d div 10), digit_char (getSeconds d mod 10)] @ ''.md''"
    by (simp add: generateFileName_def valid_date_def padStart_two_digits)
next
  assume y: "1000 \<le> getFullYear d \<and> getFullYear d \<le> 9999"
  then have "1000 \<le> nat (getFullYear d)" "nat (getFullYear d) < 10000"
    by linarith+
  then have "show_nat (nat (getFullYear d)) =
        [digit_char (nat (getFullYear d) div 1000), digit_char (nat (getFullYear d) div 100 mod 10),
         digit_char (nat (getFullYear d) div 10 mod 10), digit_char (nat (getFullYear d) mod 10)]"
    by (rule show_nat_4)
  with y show "show_int (getFullYear d) =
        [digit_char (nat (getFullYear d) div 1000), digit_char (nat (getFullYear d) div 100 mod 10),
         digit_char (nat (getFullYear d) div 10 mod 10), digit_char (nat (getFullYear d) mod 10)]"
    by (simp add: show_int_def)
next
  assume "same_second a b"
  then show "generateFileName a = generateFileName b"
    by (simp add: generateFileName_def same_second_def)
qed

theorem C8_witness:
  "valid_date example_date
   \<and> 1000 \<le> getFullYear example_date \<and> getFullYear example_date \<le> 9999
   \<and> same_second example_date (example_date\<lparr>getMilliseconds := 999\<rparr>)
   \<and> generateFileName example_date = ''2024-01-05_09-03-07.md''
   \<and> generateFileName (example_date\<lparr>getMilliseconds := 999\<rparr>) = ''2024-01-05_09-03-07.md''"
proof -
  have v: "valid_date example_date"
    by (simp add: valid_date_def example_date_def)
  have y: "1000 \<le> getFullYear example_date \<and> getFullYear example_date \<le> 9999"
    by (simp add: example_date_def)
  have s: "same_second example_date (example_date\<lparr>getMilliseconds := 999\<rparr>)"
    by (simp add: same_second_def)
  have g: "generateFileName example_date = ''2024-01-05_09-03-07.md''"
    using C8_filename_format [of example_date example_date example_date] v y
    by (simp add: example_date_def digit_char_def)
  have "generateFileName (example_date\<lparr>getMilliseconds := 999\<rparr>) = generateFileName example_date"
    using C8_filename_format [of example_date example_date "example_date\<lparr>getMilliseconds := 999\<rparr>"] s
    by simp
  with v y s g show ?thesis by simp
qed

text \<open>
  C9. An Obsidian send from a writer whose vault name and token are set calls \<^verbatim>\<open>fetch\<close>
  exactly once: a POST to the writer's base address followed by \<^verbatim>\<open>/notes\<close>, with the bearer
  token in the headers and a body of two fields, \<^verbatim>\<open>path\<close>, the vault name followed by a
  slash and the generated filename, and \<^verbatim>\<open>content\<close>, the note. The base address is the one
  the constructor built from the port alone, the loopback address at that port, so the
  vault name enters the request in the path field and nowhere else.
\<close>

theorem C9_one_post_with_vault_in_path:
  "(vaultName ob \<noteq> [] \<and> str_truthy (apiToken ob) \<longrightarrow>
      requests (trace (snd (sendToObsidian ob c w))) =
        requests (trace w) @
          [\<lparr>req_method = POST,
            req_url = apiUrl ob @ ''/notes'',
            req_headers = [(''Content-Type'', ''application/json''),
                           (''Authorization'', ''Bearer '' @ str_of (apiToken ob))],
            req_body = Some (JObj [(''path'', JStr (vaultName ob @ ''/'' @ generateFileName (clock w))),
                                   (''content'', JStr c)])\<rparr>])
   \<and> apiUrl (new_ObsidianWriter v tok prt)
       = ''http://127.0.0.1:'' @ (case prt of None \<Rightarrow> ''27123'' | Some q \<Rightarrow> q)
   \<and> (str_truthy v \<longrightarrow> vaultName (new_ObsidianWriter v tok prt) = trim (str_of v))"
proof (intro conjI impI)
  assume "vaultName ob \<noteq> [] \<and> str_truthy (apiToken ob)"
  then show "requests (trace (snd (sendToObsidian ob c w))) =
        requests (trace w) @
          [\<lparr>req_method = POST,
            req_url = apiUrl ob @ ''/notes'',
            req_headers = [(''Content-Type'', ''application/json''),
                           (''Authorization'', ''Bearer '' @ str_of (apiToken ob))],
            req_body = Some (JObj [(''path'', JStr (vaultName ob @ ''/'' @ generateFileName (clock w))),
                                   (''content'', JStr c)])\<rparr>]"
    by (simp add: sendToObsidian_trace requests_append) (simp add: requests_def)
next
  show "apiUrl (new_ObsidianWriter v tok prt)
       = ''http://127.0.0.1:'' @ (case prt of None \<Rightarrow> ''27123'' | Some q \<Rightarrow> q)"
    by (simp add: new_ObsidianWriter_def Let_def)
next
  assume "str_truthy v"
  then show "vaultName (new_ObsidianWriter v tok prt) = trim (str_of v)"
    by (simp add: new_ObsidianWriter_def Let_def)
qed

theorem C9_witness:
  "vaultName (new_ObsidianWriter (Some ''  ob-flomo '') (Some ''secret'') None) = ''ob-flomo''
   \<and> str_truthy (apiToken (new_ObsidianWriter (Some ''  ob-flomo '') (Some ''secret'') None))
   \<and> requests (trace (snd (sendToObsidian
          (new_ObsidianWriter (Some ''  ob-flomo '') (Some ''secret'') None) ''hello'' offline_world)))
     = [\<lparr>req_method = POST, req_url = ''http://127.0.0.1:27123/notes'',
         req_headers = [(''Content-Type'', ''application/json''),
                        (''Authorization'', ''Bearer secret'')],
         req_body = Some (JObj [(''path'', JStr ''ob-flomo/2024-01-05_09-03-07.md''),
                                (''content'', JStr ''hello'')])\<rparr>]"
proof -
  let ?ob = "new_ObsidianWriter (Some ''  ob-flomo '') (Some ''secret'') None"
  have t: "trim ''  ob-flomo '' = ''ob-flomo''"
    by (simp add: trim_def js_whitespace_def)
  have k: "apiToken ?ob = Some ''secret''"
    by (simp add: new_ObsidianWriter_def Let_def)
  have g: "generateFileName (clock offline_world) = ''2024-01-05_09-03-07.md''"
    by (simp add: offline_world_def example_date_def generateFileName_def show_int_def
          show_nat.simps padStart_def digit_char_def)
  have r: "requests (trace offline_world) = []"
    by (simp add: offline_world_def requests_def)
  show ?thesis
    using C9_one_post_with_vault_in_path
            [of ?ob "''hello''" offline_world "Some ''  ob-flomo ''" "Some ''secret''" None]
          t k g r
    by simp
qed

text \<open>
  C10. The connection test of a writer does not depend on its vault name, as long as it
  is not empty: with any two such names in the same writer, and so with the same token and
  port, the test gives the same outcome and the same world afterwards, hence the same trace
  with the same request in it. The same holds of two writers constructed with the same token
  and port and any two vault names that are not empty after trimming. A successful test
  therefore says nothing about the vault.
\<close>

theorem C10_probe_ignores_vault_name:
  "(v1 \<noteq> [] \<and> v2 \<noteq> [] \<longrightarrow>
      obsidian_testConnection (ob\<lparr>vaultName := v1\<rparr>) w
        = obsidian_testConnection (ob\<lparr>vaultName := v2\<rparr>) w)
   \<and> (trim u1 \<noteq> [] \<and> trim u2 \<noteq> [] \<longrightarrow>
      obsidian_testConnection (new_ObsidianWriter (Some u1) tok prt) w
        = obsidian_testConnection (new_ObsidianWriter (Some u2) tok prt) w)"
proof (intro conjI impI)
  assume "v1 \<noteq> [] \<and> v2 \<noteq> []"
  then show "obsidian_testConnection (ob\<lparr>vaultName := v1\<rparr>) w
        = obsidian_testConnection (ob\<lparr>vaultName := v2\<rparr>) w"
    by (simp add: obsidian_testConnection_def Let_def)
next
  assume a: "trim u1 \<noteq> [] \<and> trim u2 \<noteq> []"
  then have "u1 \<noteq> []" "u2 \<noteq> []"
    by (simp_all add: trim_nonempty)
  with a show "obsidian_testConnection (new_ObsidianWriter (Some u1) tok prt) w
        = obsidian_testConnection (new_ObsidianWriter (Some u2) tok prt) w"
    by (simp add: obsidian_testConnection_def new_ObsidianWriter_def Let_def)
qed

theorem C10_witness:
  "trim ''ob-flomo'' \<noteq> [] \<and> trim ''no such vault'' \<noteq> []
   \<and> obsidian_testConnection (example_obsidian\<lparr>vaultName := ''ob-flomo''\<rparr>)
         (answering_world ok_response)
     = obsidian_testConnection (example_obsidian\<lparr>vaultName := ''no such vault''\<rparr>)
         (answering_world ok_response)
   \<and> obsidian_testConnection (new_ObsidianWriter (Some ''ob-flomo'') (Some ''secret'') None)
         (answering_world ok_response)
     = obsidian_testConnection (new_ObsidianWriter (Some ''no such vault'') (Some ''secret'') None)
         (answering_world ok_response)
   \<and> fst (obsidian_testConnection (new_ObsidianWriter (Some ''no such vault'') (Some ''secret'') None)
         (answering_world ok_response))
     = Fulfilled \<lparr>success = True, message = ''Obsidian API connection successful.''\<rparr>
   \<and> requests (trace (snd (obsidian_testConnection
         (new_ObsidianWriter (Some ''no such vault'') (Some ''secret'') None)
         (answering_world ok_response))))
     = [\<lparr>req_method = HEAD, req_url = ''http://127.0.0.1:27123/vault/'',
         req_headers = [(''Authorization'', ''Bearer secret'')], req_body = None\<rparr>]"
proof -
  have t: "trim ''ob-flomo'' \<noteq> []" "trim ''no such vault'' \<noteq> []"
    by (simp_all add: trim_def js_whitespace_def)
  have n: "''ob-flomo'' \<noteq> []" "''no such vault'' \<noteq> []"
    by simp_all
  have e: "fst (obsidian_testConnection (new_ObsidianWriter (Some ''no such vault'') (Some ''secret'') None)
         (answering_world ok_response))
     = Fulfilled \<lparr>success = True, message = ''Obsidian API connection successful.''\<rparr>"
    by (simp add: obsidian_testConnection_def new_ObsidianWriter_def Let_def async_defs
          trim_def js_whitespace_def answering_world_def ok_response_def response_ok_def)
  have q: "requests (trace (snd (obsidian_testConnection
         (new_ObsidianWriter (Some ''no such vault'') (Some ''secret'') None)
         (answering_world ok_response))))
     = [\<lparr>req_method = HEAD, req_url = ''http://127.0.0.1:27123/vault/'',
         req_headers = [(''Authorization'', ''Bearer secret'')], req_body = None\<rparr>]"
    by (simp add: obsidian_testConnection_def new_ObsidianWriter_def Let_def async_defs
          trim_def js_whitespace_def answering_world_def ok_response_def response_ok_def
          requests_def)
  have i: "obsidian_testConnection (example_obsidian\<lparr>vaultName := ''ob-flomo''\<rparr>)
         (answering_world ok_response)
     = obsidian_testConnection (example_obsidian\<lparr>vaultName := ''no such vault''\<rparr>)
         (answering_world ok_response)"
    "obsidian_testConnection (new_ObsidianWriter (Some ''ob-flomo'') (Some ''secret'') None)
         (answering_world ok_response)
     = obsidian_testConnection (new_ObsidianWriter (Some ''no such vault'') (Some ''secret'') None)
         (answering_world ok_response)"
    using C10_probe_ignores_vault_name
            [of "''ob-flomo''" "''no such vault''" example_obsidian "answering_world ok_response"
                "''ob-flomo''" "''no such vault''" "Some ''secret''" None] t n
    by blast+
  show ?thesis
    by (intro conjI) (rule t(1), rule t(2), rule i(1), rule i(2), rule e, rule q)
qed

end
